theory Spec2Isabelle
  imports Main
begin

section \<open>Graph generator: tables, chart specifications and the run of main.py\<close>

text \<open>
  The program (\<^verbatim>\<open>src/graphGenerator/main.py\<close>) reads a YAML configuration and CSV
  tables and drives matplotlib's pyplot. Its behaviour is its effects: lines printed,
  pyplot calls, directories made, images saved, and how the process ends. The model
  threads a record of these effects through every function, and takes what the
  libraries answer (the parsed YAML document, the table read from a CSV file, whether
  a pyplot call raises, whether a directory can be made and whether an image can be
  saved) from a record of the environment.
\<close>

subsection \<open>Data\<close>

text \<open>
  A DataFrame read from a CSV file: named columns in file order. The cells are only
  handed on to pyplot, so a cell is a number or a text.
\<close>

datatype scalar = Num int | Txt string

type_synonym series = "scalar list"

type_synonym table = "(string \<times> series) list"

definition columns :: "table \<Rightarrow> string list" where
  "columns df = map fst df"

text \<open>Python exceptions that escape (\<open>OSError\<close> stands for an OSError other than
  FileNotFoundError: PermissionError, IsADirectoryError), and how a call ends: it
  returns, it calls \<^verbatim>\<open>sys.exit(n)\<close>, or an exception propagates to the caller.\<close>

datatype exc =
    KeyError string
  | TypeError string
  | ValueError string
  | OSError string
  | OtherError string

datatype 'a outcome = Return 'a | Exit int | Raise exc


text \<open>\<^verbatim>\<open>df[name]\<close>: the column, or KeyError.\<close>

definition getitem :: "table \<Rightarrow> string \<Rightarrow> exc + series" where
  "getitem df name = (case map_of df name of Some col \<Rightarrow> Inr col | None \<Rightarrow> Inl (KeyError name))"

text \<open>
  One entry of \<^verbatim>\<open>config['graphs']\<close>, a Python dict. For each key the program reads,
  the record says whether the key is present and holds its value at the type the
  program uses it at.
\<close>

record graph_config =
  kind :: "string option"
  x_column :: "string option"
  y_columns :: "string list option"
  title :: "string option"
  x_label :: "string option"
  y_label :: "string option"
  figure_size :: "int list option"
  output_file :: "string option"

text \<open>\<^verbatim>\<open>graph_config[key]\<close>: the value, or KeyError when the key is absent.\<close>

definition subscript :: "string \<Rightarrow> 'a option \<Rightarrow> exc + 'a" where
  "subscript key v = (case v of Some a \<Rightarrow> Inr a | None \<Rightarrow> Inl (KeyError key))"

text \<open>A name between single quotes, as the messages write it.\<close>

definition quoted :: "string \<Rightarrow> string" where
  "quoted p = CHR 0x27 # p @ [CHR 0x27]"

text \<open>
  What \<^verbatim>\<open>yaml.safe_load\<close> returns: \<^verbatim>\<open>None\<close> for an empty document, or a mapping
  that has the key \<^verbatim>\<open>graphs\<close> (a list of entries) or lacks it.
\<close>

datatype yaml_doc = YamlNone | YamlMapping "graph_config list option"

text \<open>\<^verbatim>\<open>config['graphs']\<close>: subscripting \<^verbatim>\<open>None\<close> is a TypeError.\<close>

definition config_graphs :: "yaml_doc \<Rightarrow> exc + graph_config list" where
  "config_graphs cfg =
     (case cfg of
        YamlNone \<Rightarrow> Inl (TypeError (quoted ''NoneType'' @ '' object is not subscriptable''))
      | YamlMapping gs \<Rightarrow> subscript ''graphs'' gs)"

subsection \<open>Effects and environment\<close>

datatype plt_call =
    Clf
  | Figure "int list"
  | Plot series series "string option" string
  | Scatter series series string
  | Bar series series string
  | Title string
  | XLabel string
  | YLabel string
  | Legend
  | Grid bool
  | TightLayout
  | Savefig string
  | Close

text \<open>
  The effects of a run so far. \<open>invoked\<close> is a history variable: each entry into
  \<^verbatim>\<open>generate_graph\<close> appends its two arguments; nothing reads it.
\<close>

record world =
  stdout :: "string list"
  plt :: "plt_call list"
  made_dirs :: "string list"
  saved :: "string list"
  invoked :: "(table \<times> graph_config) list"

datatype config_read =
    ConfigFileNotFound
  | ConfigUnreadable string
  | ConfigYAMLError string
  | ConfigOtherError exc
  | ConfigLoaded yaml_doc

datatype csv_read =
    CsvFileNotFound
  | CsvUnreadable string
  | CsvEmptyData
  | CsvException string
  | CsvLoaded table

text \<open>
  The environment.
  \<^item> \<open>open_yaml\<close>: what \<^verbatim>\<open>open\<close> with \<^verbatim>\<open>yaml.safe_load\<close> does on a path. The path does
    not exist (FileNotFoundError); it exists but cannot be read (\<open>ConfigUnreadable\<close>: a
    PermissionError or IsADirectoryError, with its text); the document is malformed
    (YAMLError, with its text); any other exception; or the parsed document.
  \<^item> \<open>read_csv\<close>: what \<^verbatim>\<open>pd.read_csv\<close> does on a path, likewise; \<open>CsvException\<close> is any
    other \<^verbatim>\<open>Exception\<close>, with its text.
  \<^item> \<open>plt_error\<close>: the exception a pyplot call raises, if any, after the pyplot calls
    made so far (an invalid \<^verbatim>\<open>figsize\<close>, a layout that cannot be computed).
  \<^item> \<open>makedirs_error\<close>: the exception \<^verbatim>\<open>os.makedirs\<close> raises for a directory.
  \<^item> \<open>savefig_error\<close>: the text of the exception \<^verbatim>\<open>plt.savefig\<close> raises for a path,
    after the pyplot calls made so far.
\<close>

record env =
  open_yaml :: "string \<Rightarrow> config_read"
  read_csv :: "string \<Rightarrow> csv_read"
  plt_error :: "plt_call list \<Rightarrow> plt_call \<Rightarrow> exc option"
  makedirs_error :: "string \<Rightarrow> exc option"
  savefig_error :: "plt_call list \<Rightarrow> string \<Rightarrow> string option"

definition print :: "string \<Rightarrow> world \<Rightarrow> world" where
  "print s w = w\<lparr>stdout := stdout w @ [s]\<rparr>"

text \<open>A pyplot call outside any \<^verbatim>\<open>try\<close>: it raises, or it is made and the run goes on.\<close>

definition pyplot :: "env \<Rightarrow> plt_call \<Rightarrow> world \<Rightarrow> exc \<times> world + world" where
  "pyplot E c w =
     (case plt_error E (plt w) c of
        Some e \<Rightarrow> Inl (e, w)
      | None \<Rightarrow> Inr (w\<lparr>plt := plt w @ [c]\<rparr>))"

text \<open>Pyplot calls one after the other, up to the first that raises.\<close>

fun pyplot_all :: "env \<Rightarrow> plt_call list \<Rightarrow> world \<Rightarrow> exc \<times> world + world" where
  "pyplot_all E [] w = Inr w"
| "pyplot_all E (c # cs) w =
     (case pyplot E c w of Inl ew \<Rightarrow> Inl ew | Inr w1 \<Rightarrow> pyplot_all E cs w1)"

subsection \<open>load_config (lines 15-33)\<close>

definition load_config :: "env \<Rightarrow> string \<Rightarrow> world \<Rightarrow> yaml_doc outcome \<times> world" where
  "load_config E config_path w =
     (case open_yaml E config_path of
        ConfigLoaded doc \<Rightarrow> (Return doc, w)
      | ConfigFileNotFound \<Rightarrow>
          (Exit 1, print (''Error: Config file '' @ quoted config_path @ '' not found!'') w)
      | ConfigYAMLError e \<Rightarrow> (Exit 1, print (''Error parsing config file: '' @ e) w)
      | ConfigUnreadable m \<Rightarrow> (Raise (OSError m), w)
      | ConfigOtherError x \<Rightarrow> (Raise x, w))"

subsection \<open>load_dataframe (lines 88-108)\<close>

definition load_dataframe :: "env \<Rightarrow> string \<Rightarrow> world \<Rightarrow> table outcome \<times> world" where
  "load_dataframe E file_path w =
     (case read_csv E file_path of
        CsvLoaded df \<Rightarrow> (Return df, w)
      | CsvFileNotFound \<Rightarrow>
          (Exit 1, print (''Error: Data file '' @ quoted file_path @ '' not found!'') w)
      | CsvEmptyData \<Rightarrow>
          (Exit 1, print (''Error: Data file '' @ quoted file_path @ '' is empty!'') w)
      | CsvUnreadable e \<Rightarrow>
          (Exit 1, print (''Error reading data file '' @ quoted file_path @ '': '' @ e) w)
      | CsvException e \<Rightarrow>
          (Exit 1, print (''Error reading data file '' @ quoted file_path @ '': '' @ e) w))"

subsection \<open>generate_graph (lines 36-85)\<close>

text \<open>\<^verbatim>\<open>sep.join(xs)\<close>.\<close>

fun join :: "string \<Rightarrow> string list \<Rightarrow> string" where
  "join sep [] = []"
| "join sep [x] = x"
| "join sep (x # y # ys) = x @ sep @ join sep (y # ys)"

text \<open>
  \<^verbatim>\<open>os.path.dirname\<close> (posixpath): the path up to its last slash, with the trailing
  slashes stripped unless it consists of slashes only.
\<close>

definition dirname :: "string \<Rightarrow> string" where
  "dirname p =
     (let head = rev (dropWhile (\<lambda>c. c \<noteq> CHR ''/'') (rev p))
      in if head \<noteq> [] \<and> \<not> list_all (\<lambda>c. c = CHR ''/'') head
         then rev (dropWhile (\<lambda>c. c = CHR ''/'') (rev head))
         else head)"

text \<open>\<^verbatim>\<open>os.makedirs(d, exist_ok=True)\<close>.\<close>

definition makedirs :: "env \<Rightarrow> string \<Rightarrow> world \<Rightarrow> unit outcome \<times> world" where
  "makedirs E d w =
     (case makedirs_error E d of
        Some e \<Rightarrow> (Raise e, w)
      | None \<Rightarrow> (Return (), w\<lparr>made_dirs := made_dirs w @ [d]\<rparr>))"

text \<open>
  The loop of lines 52-66 over the rest of \<^verbatim>\<open>y_columns\<close>. It ends by running to the
  end of the list (\<open>Completed\<close>), by the \<^verbatim>\<open>return\<close> of line 66 (\<open>Returned\<close>), or by an
  exception: a KeyError of \<^verbatim>\<open>df[y_column]\<close> or of \<^verbatim>\<open>graph_config['kind']\<close>, or what the
  plotting call raises.
\<close>

datatype flow = Completed | Returned

fun draw_series ::
  "env \<Rightarrow> table \<Rightarrow> graph_config \<Rightarrow> series \<Rightarrow> string list \<Rightarrow> world \<Rightarrow> flow outcome \<times> world"
  where
  "draw_series E df g x [] w = (Return Completed, w)"
| "draw_series E df g x (y_column # rest) w =
     (case getitem df y_column of
        Inl e \<Rightarrow> (Raise e, w)
      | Inr y \<Rightarrow>
         (case subscript ''kind'' (kind g) of
            Inl e \<Rightarrow> (Raise e, w)
          | Inr k \<Rightarrow>
             if k = ''line'' then
               (case pyplot E (Plot x y None y_column) w of
                  Inl (e, w1) \<Rightarrow> (Raise e, w1)
                | Inr w1 \<Rightarrow> draw_series E df g x rest w1)
             else if k = ''plot'' then
               (case pyplot E (Plot x y (Some ''o'') y_column) w of
                  Inl (e, w1) \<Rightarrow> (Raise e, w1)
                | Inr w1 \<Rightarrow> draw_series E df g x rest w1)
             else if k = ''scatter'' then
               (case pyplot E (Scatter x y y_column) w of
                  Inl (e, w1) \<Rightarrow> (Raise e, w1)
                | Inr w1 \<Rightarrow> draw_series E df g x rest w1)
             else if k = ''bar'' then
               (case pyplot E (Bar x y y_column) w of
                  Inl (e, w1) \<Rightarrow> (Raise e, w1)
                | Inr w1 \<Rightarrow> draw_series E df g x rest w1)
             else (Return Returned, print (''[WARNING] Unsupported graph type: '' @ k) w)))"

text \<open>
  Lines 80-85: \<^verbatim>\<open>try: plt.savefig(...) except Exception as e: print(...) finally:
  plt.close()\<close>. What \<^verbatim>\<open>plt.savefig\<close> raises is caught and printed; what
  \<^verbatim>\<open>plt.close()\<close> raises escapes.
\<close>

definition save_and_close :: "env \<Rightarrow> string \<Rightarrow> world \<Rightarrow> unit outcome \<times> world" where
  "save_and_close E out w =
     (let w1 = w\<lparr>plt := plt w @ [Savefig out]\<rparr>;
          w2 = (case savefig_error E (plt w) out of
                  None \<Rightarrow> w1\<lparr>saved := saved w1 @ [out]\<rparr>
                | Some e \<Rightarrow> print (''Error saving graph to '' @ out @ '': '' @ e) w1)
      in case pyplot E Close w2 of
           Inl (e, w3) \<Rightarrow> (Raise e, w3)
         | Inr w3 \<Rightarrow> (Return (), w3))"

text \<open>
  Lines 75-85: the output directory is made when the path has one
  (\<^verbatim>\<open>os.makedirs\<close> is outside the \<^verbatim>\<open>try\<close>), then the image is saved and the figure
  closed.
\<close>

definition save_chart :: "env \<Rightarrow> graph_config \<Rightarrow> world \<Rightarrow> unit outcome \<times> world" where
  "save_chart E g w =
     (case subscript ''output_file'' (output_file g) of
        Inl e \<Rightarrow> (Raise e, w)
      | Inr out \<Rightarrow>
         (let output_dir = dirname out
          in if output_dir \<noteq> [] then
               (case makedirs E output_dir w of
                  (Return u, w1) \<Rightarrow> save_and_close E out w1
                | (Exit n, w1) \<Rightarrow> (Exit n, w1)
                | (Raise e, w1) \<Rightarrow> (Raise e, w1))
             else save_and_close E out w))"

text \<open>
  The six pyplot calls of lines 68-73, outside any \<^verbatim>\<open>try\<close>, for the x column \<open>xc\<close>, the
  y columns \<open>ycs\<close> and the title \<open>t\<close>.
\<close>

definition label_calls :: "graph_config \<Rightarrow> string \<Rightarrow> string list \<Rightarrow> string \<Rightarrow> plt_call list" where
  "label_calls g xc ycs t =
     [Title t,
      XLabel (case x_label g of Some l \<Rightarrow> l | None \<Rightarrow> xc),
      YLabel (case y_label g of Some l \<Rightarrow> l | None \<Rightarrow> join '', '' ycs),
      Legend, Grid True, TightLayout]"

text \<open>
  Lines 68-85, reached when the loop ran to its end; \<open>xc\<close> and \<open>ycs\<close> are the values of
  \<^verbatim>\<open>graph_config['x_column']\<close> and \<^verbatim>\<open>graph_config['y_columns']\<close>, read again there.
\<close>

definition label_and_save ::
  "env \<Rightarrow> graph_config \<Rightarrow> string \<Rightarrow> string list \<Rightarrow> world \<Rightarrow> unit outcome \<times> world" where
  "label_and_save E g xc ycs w =
     (case subscript ''title'' (title g) of
        Inl e \<Rightarrow> (Raise e, w)
      | Inr t \<Rightarrow>
         (case pyplot_all E (label_calls g xc ycs t) w of
            Inl (e, w1) \<Rightarrow> (Raise e, w1)
          | Inr w1 \<Rightarrow> save_chart E g w1))"

text \<open>
  The pyplot calls of lines 45-49, \<^verbatim>\<open>plt.clf()\<close> and, when the entry has a figure size,
  \<^verbatim>\<open>plt.figure(figsize=...)\<close>: they come before any column or the kind is read, outside
  any \<^verbatim>\<open>try\<close>.
\<close>

definition setup_calls :: "graph_config \<Rightarrow> plt_call list" where
  "setup_calls g = Clf # (case figure_size g of Some fs \<Rightarrow> [Figure fs] | None \<Rightarrow> [])"

definition generate_graph ::
  "env \<Rightarrow> table \<Rightarrow> graph_config \<Rightarrow> world \<Rightarrow> unit outcome \<times> world" where
  "generate_graph E df g w =
     (let w0 = w\<lparr>invoked := invoked w @ [(df, g)]\<rparr>
      in case pyplot_all E (setup_calls g) w0 of
           Inl (e, w1) \<Rightarrow> (Raise e, w1)
         | Inr w1 \<Rightarrow>
            (case subscript ''x_column'' (x_column g) of
               Inl e \<Rightarrow> (Raise e, w1)
             | Inr xc \<Rightarrow>
                (case getitem df xc of
                   Inl e \<Rightarrow> (Raise e, w1)
                 | Inr x \<Rightarrow>
                    (case subscript ''y_columns'' (y_columns g) of
                       Inl e \<Rightarrow> (Raise e, w1)
                     | Inr ycs \<Rightarrow>
                        (case draw_series E df g x ycs w1 of
                           (Return Completed, w2) \<Rightarrow> label_and_save E g xc ycs w2
                         | (Return Returned, w2) \<Rightarrow> (Return (), w2)
                         | (Exit n, w2) \<Rightarrow> (Exit n, w2)
                         | (Raise e, w2) \<Rightarrow> (Raise e, w2))))))"

subsection \<open>main (lines 111-138)\<close>

text \<open>The parsed command line: \<^verbatim>\<open>--input\<close> (absent is \<^verbatim>\<open>None\<close>) and \<^verbatim>\<open>--config\<close>.\<close>

record args =
  input :: "string option"
  config :: string

text \<open>\<^verbatim>\<open>if args.input:\<close> holds for a string that is not empty.\<close>

definition truthy :: "string option \<Rightarrow> string option" where
  "truthy v = (case v of None \<Rightarrow> None | Some p \<Rightarrow> if p = [] then None else Some p)"

text \<open>Lines 124-126: the loop of the \<^verbatim>\<open>--input\<close> branch, which tests each entry just
  before it renders it.\<close>

fun render_input ::
  "env \<Rightarrow> table \<Rightarrow> graph_config list \<Rightarrow> world \<Rightarrow> unit outcome \<times> world" where
  "render_input E df [] w = (Return (), w)"
| "render_input E df (graph # rest) w =
     (case subscript ''x_column'' (x_column graph) of
        Inl e \<Rightarrow> (Raise e, w)
      | Inr xc \<Rightarrow>
         if xc \<in> set (columns df) then
           (case generate_graph E df graph w of
              (Return u, w1) \<Rightarrow> render_input E df rest w1
            | (Exit n, w1) \<Rightarrow> (Exit n, w1)
            | (Raise e, w1) \<Rightarrow> (Raise e, w1))
         else render_input E df rest w)"

text \<open>Lines 130 and 136: \<^verbatim>\<open>[g for g in config['graphs'] if g['x_column'] in df.columns]\<close>.\<close>

fun select_graphs :: "table \<Rightarrow> graph_config list \<Rightarrow> exc + graph_config list" where
  "select_graphs df [] = Inr []"
| "select_graphs df (g # gs) =
     (case subscript ''x_column'' (x_column g) of
        Inl e \<Rightarrow> Inl e
      | Inr xc \<Rightarrow>
         (case select_graphs df gs of
            Inl e \<Rightarrow> Inl e
          | Inr sel \<Rightarrow> Inr (if xc \<in> set (columns df) then g # sel else sel)))"

text \<open>Lines 131-132 and 137-138: \<^verbatim>\<open>for graph in graphs: generate_graph(df, graph)\<close>.\<close>

fun render_all ::
  "env \<Rightarrow> table \<Rightarrow> graph_config list \<Rightarrow> world \<Rightarrow> unit outcome \<times> world" where
  "render_all E df [] w = (Return (), w)"
| "render_all E df (graph # rest) w =
     (case generate_graph E df graph w of
        (Return u, w1) \<Rightarrow> render_all E df rest w1
      | (Exit n, w1) \<Rightarrow> (Exit n, w1)
      | (Raise e, w1) \<Rightarrow> (Raise e, w1))"

text \<open>Lines 129-132 and 135-138: load one default dataset, select its entries, render
  them.\<close>

definition render_dataset ::
  "env \<Rightarrow> yaml_doc \<Rightarrow> string \<Rightarrow> world \<Rightarrow> unit outcome \<times> world" where
  "render_dataset E cfg path w =
     (case load_dataframe E path w of
        (Exit n, w1) \<Rightarrow> (Exit n, w1)
      | (Raise e, w1) \<Rightarrow> (Raise e, w1)
      | (Return df, w1) \<Rightarrow>
         (case config_graphs cfg of
            Inl e \<Rightarrow> (Raise e, w1)
          | Inr gs \<Rightarrow>
             (case select_graphs df gs of
                Inl e \<Rightarrow> (Raise e, w1)
              | Inr graphs \<Rightarrow> render_all E df graphs w1)))"

definition main :: "env \<Rightarrow> args \<Rightarrow> world \<Rightarrow> unit outcome \<times> world" where
  "main E a w =
     (case load_config E (config a) w of
        (Exit n, w1) \<Rightarrow> (Exit n, w1)
      | (Raise e, w1) \<Rightarrow> (Raise e, w1)
      | (Return cfg, w1) \<Rightarrow>
         (case truthy (input a) of
            Some path \<Rightarrow>
              (case load_dataframe E path w1 of
                 (Exit n, w2) \<Rightarrow> (Exit n, w2)
               | (Raise e, w2) \<Rightarrow> (Raise e, w2)
               | (Return df, w2) \<Rightarrow>
                  (case config_graphs cfg of
                     Inl e \<Rightarrow> (Raise e, w2)
                   | Inr gs \<Rightarrow> render_input E df gs w2))
          | None \<Rightarrow>
              (case render_dataset E cfg ''data/examples.csv'' w1 of
                 (Exit n, w3) \<Rightarrow> (Exit n, w3)
               | (Raise e, w3) \<Rightarrow> (Raise e, w3)
               | (Return u, w3) \<Rightarrow> render_dataset E cfg ''data/fibonacci.csv'' w3)))"

subsection \<open>Notions the properties are stated with\<close>

text \<open>The pyplot calls that set an axis label.\<close>

fun is_label :: "plt_call \<Rightarrow> bool" where
  "is_label (XLabel s) = True"
| "is_label (YLabel s) = True"
| "is_label c = False"

text \<open>The four kinds the dispatch of lines 56-63 knows.\<close>

definition supported :: "string \<Rightarrow> bool" where
  "supported k = (k = ''line'' \<or> k = ''plot'' \<or> k = ''scatter'' \<or> k = ''bar'')"

text \<open>The test main makes before it renders an entry against a table:
  \<^verbatim>\<open>g['x_column'] in df.columns\<close>.\<close>

definition selects :: "table \<Rightarrow> graph_config \<Rightarrow> bool" where
  "selects df g = (case x_column g of Some xc \<Rightarrow> xc \<in> set (columns df) | None \<Rightarrow> False)"

text \<open>The pyplot calls \<open>cs\<close>, made one after the other after the calls \<open>tr\<close>, raise
  nothing.\<close>

fun plt_ok :: "env \<Rightarrow> plt_call list \<Rightarrow> plt_call list \<Rightarrow> bool" where
  "plt_ok E tr [] = True"
| "plt_ok E tr (c # cs) = (plt_error E tr c = None \<and> plt_ok E (tr @ [c]) cs)"

text \<open>A dataset load fails: \<^verbatim>\<open>pd.read_csv\<close> raises. A configuration load fails: the file
  is missing or the document is malformed (the two cases \<^verbatim>\<open>load_config\<close> handles).\<close>

definition csv_fails :: "env \<Rightarrow> string \<Rightarrow> bool" where
  "csv_fails E p = (case read_csv E p of CsvLoaded df \<Rightarrow> False | _ \<Rightarrow> True)"

definition config_fails :: "env \<Rightarrow> string \<Rightarrow> bool" where
  "config_fails E p =
     (case open_yaml E p of ConfigFileNotFound \<Rightarrow> True | ConfigYAMLError e \<Rightarrow> True | _ \<Rightarrow> False)"



text \<open>The CSV files a run loads, in order, and the first of them.\<close>

definition dataset_paths :: "args \<Rightarrow> string list" where
  "dataset_paths a =
     (case truthy (input a) of
        Some p \<Rightarrow> [p]
      | None \<Rightarrow> [''data/examples.csv'', ''data/fibonacci.csv''])"


subsection \<open>Concrete inputs\<close>

text \<open>The table of a CSV file with header \<^verbatim>\<open>a,b,c\<close> and the row \<^verbatim>\<open>1,2,3\<close>, and chart
  entries over it.\<close>

definition table_abc :: table where
  "table_abc = [(''a'', [Num 1]), (''b'', [Num 2]), (''c'', [Num 3])]"

definition spec_line :: graph_config where
  "spec_line = \<lparr>kind = Some ''line'', x_column = Some ''a'', y_columns = Some [''b'', ''c''],
     title = Some ''T'', x_label = None, y_label = None, figure_size = None,
     output_file = Some ''out/x.png''\<rparr>"

definition spec_pie :: graph_config where
  "spec_pie = spec_line\<lparr>kind := Some ''pie'', figure_size := Some [10, 6]\<rparr>"

definition spec_no_series :: graph_config where
  "spec_no_series = spec_line\<lparr>kind := Some ''pie'', y_columns := Some []\<rparr>"

definition world0 :: world where
  "world0 = \<lparr>stdout = [], plt = [], made_dirs = [], saved = [], invoked = []\<rparr>"

text \<open>An environment where every configuration path holds the one entry \<open>spec_line\<close>,
  every CSV path holds \<open>table_abc\<close>, and no pyplot call, directory or image fails.\<close>

definition env_ok :: env where
  "env_ok = \<lparr>open_yaml = (\<lambda>p. ConfigLoaded (YamlMapping (Some [spec_line]))),
     read_csv = (\<lambda>p. CsvLoaded table_abc),
     plt_error = (\<lambda>tr c. None),
     makedirs_error = (\<lambda>d. None), savefig_error = (\<lambda>tr p. None)\<rparr>"

text \<open>A second table with the same header, the default arguments, and an environment
  whose two default datasets both have the column \<^verbatim>\<open>a\<close>.\<close>

definition table_fib :: table where
  "table_fib = [(''a'', [Num 0, Num 1]), (''b'', [Num 1, Num 1]), (''c'', [Num 1, Num 2])]"

definition args_default :: args where
  "args_default = \<lparr>input = None, config = ''config.yaml''\<rparr>"

definition env_both :: env where
  "env_both = env_ok\<lparr>read_csv :=
     (\<lambda>p. if p = ''data/examples.csv'' then CsvLoaded table_abc
          else if p = ''data/fibonacci.csv'' then CsvLoaded table_fib
          else CsvFileNotFound)\<rparr>"

text \<open>An entry whose only y column is not in \<open>table_abc\<close>.\<close>

definition spec_missing_y :: graph_config where
  "spec_missing_y = spec_line\<lparr>y_columns := Some [''zz'']\<rparr>"

text \<open>\<open>env_ok\<close> with another answer for the configuration, or for every CSV file.\<close>

definition env_config :: "config_read \<Rightarrow> env" where
  "env_config c = env_ok\<lparr>open_yaml := (\<lambda>p. c)\<rparr>"

definition env_csv :: "csv_read \<Rightarrow> env" where
  "env_csv c = env_ok\<lparr>read_csv := (\<lambda>p. c)\<rparr>"

text \<open>A run with an unsupported kind where every save fails.\<close>

definition env_rough :: env where
  "env_rough = env_ok\<lparr>open_yaml := (\<lambda>p. ConfigLoaded (YamlMapping (Some [spec_pie, spec_line]))),
     savefig_error := (\<lambda>tr p. Some ''disk full'')\<rparr>"

text \<open>
  An entry of unsupported kind with a negative figure width, and an environment where
  \<^verbatim>\<open>plt.figure\<close> rejects that size, as matplotlib does.
\<close>

definition spec_pie_negative :: graph_config where
  "spec_pie_negative = spec_pie\<lparr>figure_size := Some [- 1, 2]\<rparr>"

definition env_figsize :: env where
  "env_figsize = env_ok\<lparr>plt_error :=
     (\<lambda>tr c. if c = Figure [- 1, 2]
             then Some (ValueError ''figure size must be positive finite not (-1, 2)'')
             else None)\<rparr>"

text \<open>
  An entry with no y columns and an empty figure, and an environment where
  \<^verbatim>\<open>plt.tight_layout\<close> raises on a figure of that size.
\<close>

definition spec_no_series_empty :: graph_config where
  "spec_no_series_empty = spec_no_series\<lparr>figure_size := Some [0, 0]\<rparr>"

definition env_layout :: env where
  "env_layout = env_ok\<lparr>plt_error :=
     (\<lambda>tr c. if c = TightLayout \<and> Figure [0, 0] \<in> set tr
             then Some (OtherError ''tight_layout cannot lay out an empty figure'')
             else None)\<rparr>"

text \<open>An entry whose x column is not in \<open>table_abc\<close>, of unsupported kind.\<close>

definition spec_pie_missing_x :: graph_config where
  "spec_pie_missing_x = spec_pie\<lparr>x_column := Some ''zz''\<rparr>"

definition spec_pie_missing_y :: graph_config where
  "spec_pie_missing_y = spec_pie\<lparr>y_columns := Some [''zz'', ''b'']\<rparr>"

section \<open>Properties\<close>

subsection \<open>Auxiliary facts\<close>

lemmas run_defs = generate_graph_def label_and_save_def save_chart_def save_and_close_def
  makedirs_def setup_calls_def label_calls_def pyplot_def dirname_def print_def subscript_def
  getitem_def columns_def Let_def

lemmas example_defs = env_ok_def table_abc_def spec_pie_def spec_line_def world0_def

lemma getitem_present: "name \<in> set (columns df) \<Longrightarrow> \<exists>col. getitem df name = Inr col"
  by (cases "map_of df name") (auto simp: getitem_def columns_def map_of_eq_None_iff)

lemma pyplot_Inr:
  "pyplot E c w = Inr w1 \<Longrightarrow> w1 = w\<lparr>plt := plt w @ [c]\<rparr> \<and> plt_error E (plt w) c = None"
  by (auto simp: pyplot_def split: option.splits)

lemma pyplot_Inl: "pyplot E c w = Inl (e, w1) \<Longrightarrow> w1 = w \<and> plt_error E (plt w) c = Some e"
  by (auto simp: pyplot_def split: option.splits)

lemma pyplot_all_Inr:
  "pyplot_all E cs w = Inr w1 \<Longrightarrow> w1 = w\<lparr>plt := plt w @ cs\<rparr> \<and> plt_ok E (plt w) cs"
proof (induction cs arbitrary: w)
  case Nil
  then show ?case by simp
next
  case (Cons c cs)
  then obtain w0 where a: "pyplot E c w = Inr w0" and b: "pyplot_all E cs w0 = Inr w1"
    by (auto split: sum.splits)
  from pyplot_Inr[OF a] Cons.IH[OF b] show ?case by simp
qed

lemma pyplot_all_ok:
  "plt_ok E (plt w) cs \<Longrightarrow> pyplot_all E cs w = Inr (w\<lparr>plt := plt w @ cs\<rparr>)"
proof (induction cs arbitrary: w)
  case Nil
  then show ?case by simp
next
  case (Cons c cs)
  then have "plt_ok E (plt (w\<lparr>plt := plt w @ [c]\<rparr>)) cs" by simp
  from Cons.IH[OF this] Cons.prems show ?case by (simp add: pyplot_def)
qed

lemma pyplot_all_Inl:
  "pyplot_all E cs w = Inl (e, w1) \<Longrightarrow>
   \<exists>tr. w1 = w\<lparr>plt := plt w @ tr\<rparr> \<and> set tr \<subseteq> set cs \<and> \<not> plt_ok E (plt w) cs"
proof (induction cs arbitrary: w)
  case Nil
  then show ?case by simp
next
  case (Cons c cs)
  show ?case
  proof (cases "pyplot E c w")
    case (Inl ew)
    with Cons.prems have "pyplot E c w = Inl (e, w1)" by simp
    from pyplot_Inl[OF this] have "w1 = w\<lparr>plt := plt w @ []\<rparr> \<and> \<not> plt_ok E (plt w) (c # cs)"
      by simp
    then show ?thesis by (metis empty_set empty_subsetI)
  next
    case (Inr w0)
    with Cons.prems have b: "pyplot_all E cs w0 = Inl (e, w1)" by simp
    from Cons.IH[OF b] obtain tr where t: "w1 = w0\<lparr>plt := plt w0 @ tr\<rparr>" "set tr \<subseteq> set cs"
      "\<not> plt_ok E (plt w0) cs" by blast
    from pyplot_Inr[OF Inr] t
    have "w1 = w\<lparr>plt := plt w @ (c # tr)\<rparr> \<and> set (c # tr) \<subseteq> set (c # cs) \<and>
          \<not> plt_ok E (plt w) (c # cs)" by auto
    then show ?thesis by blast
  qed
qed

lemma draw_one_rel:
  assumes ih: "\<And>w0. draw_series E df g x rest w0 = (r, w') \<Longrightarrow> R w0 w'"
    and run: "(case pyplot E c w of Inl (e, w1) \<Rightarrow> (Raise e, w1)
               | Inr w1 \<Rightarrow> draw_series E df g x rest w1) = (r, w')"
    and refl: "R w w"
    and step: "R (w\<lparr>plt := plt w @ [c]\<rparr>) w' \<Longrightarrow> R w w'"
  shows "R w w'"
proof (cases "pyplot E c w")
  case (Inl ew)
  obtain e w1 where ew: "ew = (e, w1)" by (cases ew)
  with Inl pyplot_Inl[of E c w e w1] run have "w' = w" by simp
  with refl show ?thesis by simp
next
  case (Inr w1)
  with run have d: "draw_series E df g x rest w1 = (r, w')" by simp
  from pyplot_Inr[OF Inr] have "w1 = w\<lparr>plt := plt w @ [c]\<rparr>" by simp
  with ih[OF d] step show ?thesis by simp
qed

lemma draw_series_rel:
  assumes refl: "\<And>w. R w w"
    and step: "\<And>w c w'. \<not> is_label c \<Longrightarrow> c \<noteq> Close \<Longrightarrow>
                 R (w\<lparr>plt := plt w @ [c]\<rparr>) w' \<Longrightarrow> R w w'"
    and warn: "\<And>w s. R w (print s w)"
  shows "draw_series E df g x ycs w = (r, w') \<Longrightarrow> R w w'"
proof (induction ycs arbitrary: w)
  case Nil
  then show ?case using refl by simp
next
  case (Cons y rest)
  show ?case
  proof (cases "getitem df y")
    case (Inl e)
    with Cons.prems refl show ?thesis by simp
  next
    case (Inr col)
    show ?thesis
    proof (cases "kind g")
      case None
      with Cons.prems Inr refl show ?thesis by (simp add: subscript_def)
    next
      case (Some k)
      have one: "R w w'" if c: "\<not> is_label c" "c \<noteq> Close"
        and run: "(case pyplot E c w of Inl (e, w1) \<Rightarrow> (Raise e, w1)
               | Inr w1 \<Rightarrow> draw_series E df g x rest w1) = (r, w')" for c
        by (rule draw_one_rel[where R=R and c=c, OF Cons.IH run refl step[OF c]])
      consider (line) "k = ''line''" | (plot) "k = ''plot''" | (scatter) "k = ''scatter''"
        | (bar) "k = ''bar''" | (other) "\<not> supported k"
        by (auto simp: supported_def)
      then show ?thesis
      proof cases
        case line
        with Cons.prems Inr Some show ?thesis
          by (intro one[of "Plot x col None y"]) (simp_all add: subscript_def)
      next
        case plot
        with Cons.prems Inr Some show ?thesis
          by (intro one[of "Plot x col (Some ''o'') y"]) (simp_all add: subscript_def)
      next
        case scatter
        with Cons.prems Inr Some show ?thesis
          by (intro one[of "Scatter x col y"]) (simp_all add: subscript_def)
      next
        case bar
        with Cons.prems Inr Some show ?thesis
          by (intro one[of "Bar x col y"]) (simp_all add: subscript_def)
      next
        case other
        with Cons.prems Inr Some warn show ?thesis
          by (auto simp: subscript_def supported_def)
      qed
    qed
  qed
qed

lemma draw_series_frame:
  "draw_series E df g x ycs w = (r, w') \<Longrightarrow>
     saved w' = saved w \<and> made_dirs w' = made_dirs w \<and> invoked w' = invoked w"
  by (rule draw_series_rel[where R="\<lambda>w w'. saved w' = saved w \<and> made_dirs w' = made_dirs w \<and>
        invoked w' = invoked w"]) (simp_all add: print_def)


lemma draw_series_no_exit: "draw_series E df g x ycs w \<noteq> (Exit n, w')"
proof
  assume a: "draw_series E df g x ycs w = (Exit n, w')"
  have "\<And>r w'. draw_series E df g x ycs w = (r, w') \<Longrightarrow> r \<noteq> Exit n"
  proof (induction ycs arbitrary: w)
    case Nil
    then show ?case by auto
  next
    case (Cons y rest)
    show ?case
    proof (cases "getitem df y")
      case (Inl e)
      with Cons.prems show ?thesis by auto
    next
      case (Inr col)
      show ?thesis
      proof (cases "kind g")
        case None
        with Cons.prems Inr show ?thesis by (auto simp: subscript_def)
      next
        case (Some k)
        have one: "\<And>c. (case pyplot E c w of Inl (e, w1) \<Rightarrow> (Raise e, w1)
               | Inr w1 \<Rightarrow> draw_series E df g x rest w1) = (r, w') \<Longrightarrow> r \<noteq> Exit n"
          using Cons.IH by (auto split: sum.splits)
        from Cons.prems Inr Some one show ?thesis
          by (auto simp: subscript_def split: if_splits)
      qed
    qed
  qed
  with a show False by blast
qed

lemma draw_series_unsupported:
  "kind g = Some k \<Longrightarrow> \<not> supported k \<Longrightarrow> y \<in> set (columns df) \<Longrightarrow>
   draw_series E df g x (y # ys) w =
     (Return Returned, print (''[WARNING] Unsupported graph type: '' @ k) w)"
  using getitem_present[of y df] by (auto simp: subscript_def supported_def)


lemma save_and_close_world:
  "save_and_close E out w = (r, w') \<Longrightarrow>
   r \<noteq> Exit n \<and> invoked w' = invoked w \<and> made_dirs w' = made_dirs w \<and>
   (stdout w' = stdout w \<or>
    (\<exists>e. stdout w' = stdout w @ [''Error saving graph to '' @ out @ '': '' @ e]))"
  by (auto simp: save_and_close_def pyplot_def print_def Let_def split: option.splits)

lemma save_chart_world:
  assumes "save_chart E g w = (r, w')"
  shows "r \<noteq> Exit n \<and> invoked w' = invoked w \<and>
   (stdout w' = stdout w \<or>
    (\<exists>out e. stdout w' = stdout w @ [''Error saving graph to '' @ out @ '': '' @ e]))"
proof (cases "output_file g")
  case None
  with assms show ?thesis by (auto simp: save_chart_def subscript_def)
next
  case (Some out)
  show ?thesis
  proof (cases "dirname out = [] \<or> makedirs_error E (dirname out) = None")
    case False
    with assms Some show ?thesis
      by (auto simp: save_chart_def subscript_def Let_def makedirs_def)
  next
    case True
    with assms Some obtain w1 where "save_and_close E out w1 = (r, w')"
      "invoked w1 = invoked w" "stdout w1 = stdout w"
      by (auto simp: save_chart_def subscript_def Let_def makedirs_def split: if_splits)
    with save_and_close_world[of E out w1 r w' n] show ?thesis by auto
  qed
qed

lemma label_and_save_world:
  assumes "label_and_save E g xc ycs w = (r, w')"
  shows "r \<noteq> Exit n \<and> invoked w' = invoked w \<and>
   (stdout w' = stdout w \<or>
    (\<exists>out e. stdout w' = stdout w @ [''Error saving graph to '' @ out @ '': '' @ e]))"
proof (cases "title g")
  case None
  with assms show ?thesis by (auto simp: label_and_save_def subscript_def)
next
  case (Some t)
  show ?thesis
  proof (cases "pyplot_all E (label_calls g xc ycs t) w")
    case (Inl ew)
    obtain e w1 where ew: "ew = (e, w1)" by (cases ew)
    from Inl ew have "pyplot_all E (label_calls g xc ycs t) w = Inl (e, w1)" by simp
    from pyplot_all_Inl[OF this]
    have "invoked w1 = invoked w \<and> stdout w1 = stdout w" by auto
    with assms Some Inl ew show ?thesis by (auto simp: label_and_save_def subscript_def)
  next
    case (Inr w1)
    from pyplot_all_Inr[OF Inr] have i: "invoked w1 = invoked w" "stdout w1 = stdout w" by simp_all
    from assms Some Inr have "save_chart E g w1 = (r, w')"
      by (simp add: label_and_save_def subscript_def)
    from save_chart_world[OF this, of n] i show ?thesis by simp
  qed
qed

lemma label_and_save_no_exit: "label_and_save E g xc ycs w \<noteq> (Exit n, w')"
  using label_and_save_world[of E g xc ycs w "Exit n" w' n] by auto

lemma label_and_save_invoked:
  "invoked (snd (label_and_save E g xc ycs w)) = invoked w"
  using label_and_save_world[of E g xc ycs w "fst (label_and_save E g xc ycs w)"
      "snd (label_and_save E g xc ycs w)"] by simp

lemma generate_graph_no_exit: "generate_graph E df g w \<noteq> (Exit n, w')"
  by (auto simp: generate_graph_def Let_def label_and_save_no_exit draw_series_no_exit
      split: sum.splits prod.splits outcome.splits flow.splits)

lemma generate_graph_invoked:
  "invoked (snd (generate_graph E df g w)) = invoked w @ [(df, g)]"
proof -
  let ?w0 = "w\<lparr>invoked := invoked w @ [(df, g)]\<rparr>"
  show ?thesis
  proof (cases "pyplot_all E (setup_calls g) ?w0")
    case (Inl ew)
    obtain e w1 where ew: "ew = (e, w1)" by (cases ew)
    from Inl ew have "pyplot_all E (setup_calls g) ?w0 = Inl (e, w1)" by simp
    from pyplot_all_Inl[OF this] have "invoked w1 = invoked w @ [(df, g)]" by auto
    with Inl ew show ?thesis by (simp add: generate_graph_def Let_def)
  next
    case (Inr w1)
    from pyplot_all_Inr[OF Inr] have w1: "invoked w1 = invoked w @ [(df, g)]" by simp
    have ds: "\<And>x ycs r w2. draw_series E df g x ycs w1 = (r, w2) \<Longrightarrow> invoked w2 = invoked w @ [(df, g)]"
      using draw_series_frame w1 by metis
    show ?thesis
      unfolding generate_graph_def Let_def
      using Inr w1 ds
      by (auto simp: label_and_save_invoked split: sum.splits prod.splits outcome.splits flow.splits)
  qed
qed



lemma select_graphs_Inr:
  "select_graphs df gs = Inr sel \<Longrightarrow> sel = filter (selects df) gs"
  by (induction gs arbitrary: sel)
     (auto simp: selects_def subscript_def split: option.splits sum.splits)


lemma render_all_no_exit: "render_all E df gs w \<noteq> (Exit n, w')"
  by (induction gs arbitrary: w)
     (auto simp: generate_graph_no_exit split: prod.splits outcome.splits)

lemma render_input_no_exit: "render_input E df gs w \<noteq> (Exit n, w')"
  by (induction gs arbitrary: w)
     (auto simp: generate_graph_no_exit split: prod.splits outcome.splits sum.splits)

lemma render_all_return:
  "render_all E df gs w = (Return (), w') \<Longrightarrow> invoked w' = invoked w @ map (Pair df) gs"
proof (induction gs arbitrary: w)
  case Nil
  then show ?case by simp
next
  case (Cons g gs)
  then obtain w1 where g: "generate_graph E df g w = (Return (), w1)"
    and r: "render_all E df gs w1 = (Return (), w')"
    by (auto split: prod.splits outcome.splits)
  have "invoked w1 = invoked w @ [(df, g)]" using generate_graph_invoked[of E df g w] g by simp
  with Cons.IH[OF r] show ?case by simp
qed

lemma render_all_subset:
  "render_all E df gs w = (r, w') \<Longrightarrow> set (invoked w') \<subseteq> set (invoked w) \<union> Pair df ` set gs"
proof (induction gs arbitrary: w)
  case Nil
  then show ?case by simp
next
  case (Cons g gs)
  obtain r1 w1 where g: "generate_graph E df g w = (r1, w1)" by (cases "generate_graph E df g w")
  have i: "invoked w1 = invoked w @ [(df, g)]" using generate_graph_invoked[of E df g w] g by simp
  show ?case
  proof (cases r1)
    case (Return u)
    with Cons.prems g have "render_all E df gs w1 = (r, w')" by simp
    from Cons.IH[OF this] i show ?thesis by auto
  next
    case (Exit n)
    with Cons.prems g i show ?thesis by auto
  next
    case (Raise e)
    with Cons.prems g i show ?thesis by auto
  qed
qed

lemma render_input_subset:
  "render_input E df gs w = (r, w') \<Longrightarrow>
   set (invoked w') \<subseteq> set (invoked w) \<union> Pair df ` {g \<in> set gs. selects df g}"
proof (induction gs arbitrary: w)
  case Nil
  then show ?case by simp
next
  case (Cons g gs)
  show ?case
  proof (cases "x_column g")
    case None
    with Cons.prems show ?thesis by (simp add: subscript_def)
  next
    case (Some xc)
    show ?thesis
    proof (cases "xc \<in> set (columns df)")
      case False
      with Cons.prems Some have "render_input E df gs w = (r, w')" by (simp add: subscript_def)
      from Cons.IH[OF this] show ?thesis by auto
    next
      case True
      then have s: "selects df g" using Some by (simp add: selects_def)
      obtain r1 w1 where g: "generate_graph E df g w = (r1, w1)" by (cases "generate_graph E df g w")
      have i: "invoked w1 = invoked w @ [(df, g)]" using generate_graph_invoked[of E df g w] g by simp
      show ?thesis
      proof (cases r1)
        case (Return u)
        with Cons.prems g Some True have "render_input E df gs w1 = (r, w')" by (simp add: subscript_def)
        from Cons.IH[OF this] i s show ?thesis by auto
      next
        case (Exit n)
        with Cons.prems g i s Some True show ?thesis by (auto simp: subscript_def)
      next
        case (Raise e)
        with Cons.prems g i s Some True show ?thesis by (auto simp: subscript_def)
      qed
    qed
  qed
qed

lemma load_dataframe_world:
  "load_dataframe E p w = (r, w') \<Longrightarrow> invoked w' = invoked w"
  by (auto simp: load_dataframe_def print_def split: csv_read.splits)

lemma load_config_world:
  "load_config E p w = (r, w') \<Longrightarrow> invoked w' = invoked w"
  by (auto simp: load_config_def print_def split: config_read.splits)

lemma render_dataset_subset:
  assumes "render_dataset E cfg p w = (r, w')"
  shows "set (invoked w') \<subseteq> set (invoked w) \<union> {c. selects (fst c) (snd c)}"
proof -
  obtain r1 w1 where l: "load_dataframe E p w = (r1, w1)" by (cases "load_dataframe E p w")
  have i: "invoked w1 = invoked w" using load_dataframe_world[OF l] .
  show ?thesis
  proof (cases r1)
    case (Return df)
    show ?thesis
    proof (cases "config_graphs cfg")
      case (Inl e)
      with assms l Return i show ?thesis by (auto simp: render_dataset_def)
    next
      case (Inr gs)
      show ?thesis
      proof (cases "select_graphs df gs")
        case (Inl e)
        with assms l Return i Inr show ?thesis by (auto simp: render_dataset_def)
      next
        case sel: (Inr graphs)
        with assms l Return Inr have "render_all E df graphs w1 = (r, w')"
          by (simp add: render_dataset_def)
        from render_all_subset[OF this] select_graphs_Inr[OF sel] i show ?thesis by auto
      qed
    qed
  next
    case (Exit n)
    with assms l i show ?thesis by (auto simp: render_dataset_def)
  next
    case (Raise e)
    with assms l i show ?thesis by (auto simp: render_dataset_def)
  qed
qed

lemma render_dataset_return:
  assumes "render_dataset E cfg p w = (Return (), w')"
  shows "\<exists>df gs. read_csv E p = CsvLoaded df \<and> config_graphs cfg = Inr gs \<and>
     invoked w' = invoked w @ map (Pair df) (filter (selects df) gs)"
proof -
  from assms obtain df where l: "read_csv E p = CsvLoaded df" "load_dataframe E p w = (Return df, w)"
    by (auto simp: render_dataset_def load_dataframe_def split: csv_read.splits)
  from assms l obtain gs where c: "config_graphs cfg = Inr gs"
    by (auto simp: render_dataset_def split: sum.splits)
  from assms l c obtain graphs where s: "select_graphs df gs = Inr graphs"
    by (auto simp: render_dataset_def split: sum.splits)
  from assms l c s have "render_all E df graphs w = (Return (), w')"
    by (simp add: render_dataset_def)
  from render_all_return[OF this] select_graphs_Inr[OF s] l c show ?thesis by simp
qed

lemma render_dataset_exit:
  "render_dataset E cfg p w = (Exit n, w') \<Longrightarrow> n = 1 \<and> csv_fails E p"
  by (auto simp: render_dataset_def load_dataframe_def csv_fails_def render_all_no_exit
      split: csv_read.splits sum.splits)

lemma count_list_filter:
  "count_list (filter P xs) x = (if P x then count_list xs x else 0)"
  by (induction xs) auto

lemma count_list_map_snd_Pair: "count_list (map snd (map (Pair a) xs)) x = count_list xs x"
  by (induction xs) auto

lemma main_subset:
  assumes "main E a w = (r, w')"
  shows "set (invoked w') \<subseteq> set (invoked w) \<union> {c. selects (fst c) (snd c)}"
proof -
  obtain r1 w1 where l: "load_config E (config a) w = (r1, w1)"
    by (cases "load_config E (config a) w")
  have i1: "invoked w1 = invoked w" using load_config_world[OF l] .
  show ?thesis
  proof (cases r1)
    case (Exit n)
    with assms l i1 show ?thesis by (auto simp: main_def)
  next
    case (Raise e)
    with assms l i1 show ?thesis by (auto simp: main_def)
  next
    case (Return cfg)
    show ?thesis
    proof (cases "truthy (input a)")
      case (Some p)
      obtain r2 w2 where d: "load_dataframe E p w1 = (r2, w2)" by (cases "load_dataframe E p w1")
      have i2: "invoked w2 = invoked w" using load_dataframe_world[OF d] i1 by simp
      show ?thesis
      proof (cases r2)
        case (Exit n)
        with assms l Return Some d i2 show ?thesis by (auto simp: main_def)
      next
        case (Raise e)
        with assms l Return Some d i2 show ?thesis by (auto simp: main_def)
      next
        case df: (Return df)
        show ?thesis
        proof (cases "config_graphs cfg")
          case (Inl e)
          with assms l Return Some d df i2 show ?thesis by (auto simp: main_def)
        next
          case (Inr gs)
          with assms l Return Some d df have "render_input E df gs w2 = (r, w')"
            by (simp add: main_def)
          from render_input_subset[OF this] i2 show ?thesis by auto
        qed
      qed
    next
      case None
      obtain r3 w3 where e: "render_dataset E cfg ''data/examples.csv'' w1 = (r3, w3)"
        by (cases "render_dataset E cfg ''data/examples.csv'' w1")
      have i3: "set (invoked w3) \<subseteq> set (invoked w) \<union> {c. selects (fst c) (snd c)}"
        using render_dataset_subset[OF e] i1 by simp
      show ?thesis
      proof (cases r3)
        case (Exit n)
        with assms l Return None e i3 show ?thesis by (auto simp: main_def)
      next
        case (Raise ex)
        with assms l Return None e i3 show ?thesis by (auto simp: main_def)
      next
        case u: (Return u)
        with assms l Return None e have "render_dataset E cfg ''data/fibonacci.csv'' w3 = (r, w')"
          by (simp add: main_def)
        from render_dataset_subset[OF this] i3 show ?thesis by auto
      qed
    qed
  qed
qed

lemma main_default_return:
  assumes "truthy (input a) = None" and "main E a w = (Return (), w')"
  shows "\<exists>gs ex fib. open_yaml E (config a) = ConfigLoaded (YamlMapping (Some gs)) \<and>
     read_csv E ''data/examples.csv'' = CsvLoaded ex \<and>
     read_csv E ''data/fibonacci.csv'' = CsvLoaded fib \<and>
     invoked w' = invoked w @ map (Pair ex) (filter (selects ex) gs)
                  @ map (Pair fib) (filter (selects fib) gs)"
proof -
  from assms(2) obtain cfg where c: "open_yaml E (config a) = ConfigLoaded cfg"
    "load_config E (config a) w = (Return cfg, w)"
    by (auto simp: main_def load_config_def split: config_read.splits)
  from assms c obtain w3 where e: "render_dataset E cfg ''data/examples.csv'' w = (Return (), w3)"
    and f: "render_dataset E cfg ''data/fibonacci.csv'' w3 = (Return (), w')"
    by (auto simp: main_def split: prod.splits outcome.splits)
  from render_dataset_return[OF e] obtain ex gs where
    1: "read_csv E ''data/examples.csv'' = CsvLoaded ex" "config_graphs cfg = Inr gs"
    "invoked w3 = invoked w @ map (Pair ex) (filter (selects ex) gs)" by blast
  from render_dataset_return[OF f] 1(2) obtain fib where
    2: "read_csv E ''data/fibonacci.csv'' = CsvLoaded fib"
    "invoked w' = invoked w3 @ map (Pair fib) (filter (selects fib) gs)" by auto
  from 1(2) have "cfg = YamlMapping (Some gs)"
    by (auto simp: config_graphs_def subscript_def split: yaml_doc.splits option.splits)
  with c 1 2 show ?thesis by simp
qed

lemma main_exit:
  assumes "main E a w = (Exit n, w')"
  shows "n = 1 \<and> (config_fails E (config a) \<or> list_ex (csv_fails E) (dataset_paths a))"
proof (cases "open_yaml E (config a)")
  case ConfigFileNotFound
  with assms show ?thesis by (simp add: main_def load_config_def config_fails_def)
next
  case (ConfigYAMLError e)
  with assms show ?thesis by (simp add: main_def load_config_def config_fails_def)
next
  case (ConfigUnreadable m)
  with assms show ?thesis by (simp add: main_def load_config_def)
next
  case (ConfigOtherError x)
  with assms show ?thesis by (simp add: main_def load_config_def)
next
  case (ConfigLoaded cfg)
  show ?thesis
  proof (cases "truthy (input a)")
    case (Some p)
    with assms ConfigLoaded show ?thesis
      by (auto simp: main_def load_config_def load_dataframe_def dataset_paths_def csv_fails_def
          render_input_no_exit split: csv_read.splits sum.splits)
  next
    case None
    with assms ConfigLoaded show ?thesis
      by (auto simp: main_def load_config_def dataset_paths_def render_dataset_exit
          split: prod.splits outcome.splits dest: render_dataset_exit)
  qed
qed




lemma main_return_loaded:
  assumes "main E a w = (Return (), w')"
  shows "\<not> list_ex (csv_fails E) (dataset_paths a)"
proof (cases "truthy (input a)")
  case (Some p)
  with assms show ?thesis
    by (auto simp: main_def load_dataframe_def dataset_paths_def csv_fails_def
        split: prod.splits outcome.splits csv_read.splits)
next
  case None
  from main_default_return[OF None assms] None show ?thesis
    by (auto simp: dataset_paths_def csv_fails_def)
qed

lemma main_dataset_fails:
  assumes "list_ex (csv_fails E) (dataset_paths a)"
  shows "fst (main E a w) = Exit 1 \<or> (\<exists>e. fst (main E a w) = Raise e)"
proof -
  obtain r w' where m: "main E a w = (r, w')" by (cases "main E a w")
  show ?thesis
  proof (cases r)
    case (Return u)
    with m main_return_loaded[of E a w w'] assms show ?thesis by simp
  next
    case (Exit n)
    with m main_exit[of E a w n w'] show ?thesis by simp
  next
    case (Raise e)
    with m show ?thesis by simp
  qed
qed












lemmas example_defs2 = example_defs table_fib_def args_default_def env_both_def
  spec_missing_y_def env_config_def env_csv_def env_rough_def spec_no_series_def

lemmas main_defs = main_def render_dataset_def load_config_def load_dataframe_def
  config_graphs_def truthy_def quoted_def












subsection \<open>The claims\<close>

text \<open>
  Claim C1, as amended. In default mode (no \<^verbatim>\<open>--input\<close>) a run that completes has
  loaded the configuration and both default datasets, and has invoked
  \<^verbatim>\<open>generate_graph\<close> once for each entry and each default dataset whose columns contain the
  entry's \<^verbatim>\<open>x_column\<close>: first the entries selected by \<^verbatim>\<open>data/examples.csv\<close>, then
  those selected by \<^verbatim>\<open>data/fibonacci.csv\<close>. An entry whose \<^verbatim>\<open>x_column\<close> is in both
  is invoked twice for each of its occurrences in the configuration.
\<close>

theorem default_mode_invocations:
  assumes "truthy (input a) = None" and "main E a w = (Return (), w')"
  shows "\<exists>gs ex fib. open_yaml E (config a) = ConfigLoaded (YamlMapping (Some gs)) \<and>
     read_csv E ''data/examples.csv'' = CsvLoaded ex \<and>
     read_csv E ''data/fibonacci.csv'' = CsvLoaded fib \<and>
     invoked w' = invoked w @ map (Pair ex) (filter (selects ex) gs)
                  @ map (Pair fib) (filter (selects fib) gs) \<and>
     (\<forall>g. count_list (map snd (invoked w')) g =
            count_list (map snd (invoked w)) g
            + (if selects ex g then count_list gs g else 0)
            + (if selects fib g then count_list gs g else 0))"
proof -
  from main_default_return[OF assms] obtain gs ex fib where
    m: "open_yaml E (config a) = ConfigLoaded (YamlMapping (Some gs))"
    "read_csv E ''data/examples.csv'' = CsvLoaded ex"
    "read_csv E ''data/fibonacci.csv'' = CsvLoaded fib"
    "invoked w' = invoked w @ map (Pair ex) (filter (selects ex) gs)
                  @ map (Pair fib) (filter (selects fib) gs)" by blast
  have "\<forall>g. count_list (map snd (invoked w')) g =
            count_list (map snd (invoked w)) g
            + (if selects ex g then count_list gs g else 0)
            + (if selects fib g then count_list gs g else 0)"
    unfolding m(4) by (simp add: count_list_filter comp_def)
  with m show ?thesis by blast
qed

text \<open>The theorem at the one-entry configuration over two datasets that both have the
  column \<^verbatim>\<open>a\<close>.\<close>

theorem default_mode_invocations_witness:
  "truthy (input args_default) = None \<and>
   fst (main env_both args_default world0) = Return () \<and>
   invoked (snd (main env_both args_default world0)) =
     [(table_abc, spec_line), (table_fib, spec_line)] \<and>
   count_list (map snd (invoked (snd (main env_both args_default world0)))) spec_line = 2"
proof -
  let ?r = "main env_both args_default world0"
  have t: "truthy (input args_default) = None" by (simp add: truthy_def args_default_def)
  have f: "fst ?r = Return ()"
    by (simp add: main_defs run_defs example_defs2)
  then have run: "?r = (Return (), snd ?r)" by (metis prod.collapse)
  from default_mode_invocations[OF t run] t f show ?thesis
    by (auto simp: env_both_def env_ok_def args_default_def world0_def selects_def
        spec_line_def table_abc_def table_fib_def columns_def)
qed

text \<open>The claim as stated fails there: the entry's \<^verbatim>\<open>x_column\<close> is in both datasets, and
  the entry is rendered against each of them, so its image is saved twice.\<close>

theorem spec_in_both_datasets_rendered_twice:
  "selects table_abc spec_line \<and> selects table_fib spec_line \<and>
   fst (main env_both args_default world0) = Return () \<and>
   invoked (snd (main env_both args_default world0)) =
     [(table_abc, spec_line), (table_fib, spec_line)] \<and>
   saved (snd (main env_both args_default world0)) = [''out/x.png'', ''out/x.png''] \<and>
   count_list (map snd (invoked (snd (main env_both args_default world0)))) spec_line \<noteq> 1"
  by (simp add: main_defs run_defs example_defs2 selects_def)

text \<open>
  Claim C2, as amended. Whatever the outcome of a run, every invocation of
  \<^verbatim>\<open>generate_graph\<close> it made was for an entry whose \<^verbatim>\<open>x_column\<close> names a column of
  the table passed, so the lookup of line 51 returns a column. Nothing is said of
  \<^verbatim>\<open>y_columns\<close>: main does not test them.
\<close>

theorem invocations_have_x_column:
  assumes "main E a w = (r, w')" and "(df, g) \<in> set (invoked w')"
    and "(df, g) \<notin> set (invoked w)"
  shows "\<exists>xc x. x_column g = Some xc \<and> xc \<in> set (columns df) \<and> getitem df xc = Inr x"
proof -
  from main_subset[OF assms(1)] assms(2,3) have "selects df g" by auto
  then obtain xc where xc: "x_column g = Some xc" "xc \<in> set (columns df)"
    by (auto simp: selects_def split: option.splits)
  with getitem_present[OF xc(2)] show ?thesis by blast
qed

text \<open>The theorem at a run whose one entry has a y column the table lacks.\<close>

theorem invocations_have_x_column_witness:
  "(table_abc, spec_missing_y) \<in> set (invoked (snd (main (env_config (ConfigLoaded (YamlMapping (Some [spec_missing_y])))) args_default world0))) \<and>
   (table_abc, spec_missing_y) \<notin> set (invoked world0) \<and>
   (\<exists>xc x. x_column spec_missing_y = Some xc \<and> xc \<in> set (columns table_abc) \<and>
      getitem table_abc xc = Inr x)"
proof -
  let ?E = "env_config (ConfigLoaded (YamlMapping (Some [spec_missing_y])))"
  let ?r = "main ?E args_default world0"
  have i: "(table_abc, spec_missing_y) \<in> set (invoked (snd ?r))"
    by (simp add: main_defs run_defs example_defs2)
  have n: "(table_abc, spec_missing_y) \<notin> set (invoked world0)" by (simp add: world0_def)
  have run: "?r = (fst ?r, snd ?r)" by simp
  from invocations_have_x_column[OF run i n] i n show ?thesis by blast
qed

text \<open>The claim as stated fails there: main selects the entry, \<^verbatim>\<open>generate_graph\<close> is
  invoked, and the lookup \<^verbatim>\<open>df['zz']\<close> of line 53 raises KeyError, which ends the run.\<close>

theorem unchecked_y_column_raises:
  "fst (main (env_config (ConfigLoaded (YamlMapping (Some [spec_missing_y])))) args_default world0)
     = Raise (KeyError ''zz'') \<and>
   invoked (snd (main (env_config (ConfigLoaded (YamlMapping (Some [spec_missing_y])))) args_default world0))
     = [(table_abc, spec_missing_y)] \<and>
   y_columns spec_missing_y = Some [''zz''] \<and> ''zz'' \<notin> set (columns table_abc) \<and>
   getitem table_abc ''zz'' = Inl (KeyError ''zz'')"
  by (simp add: main_defs run_defs example_defs2)

text \<open>
  Claim C3 (every exit path of \<^verbatim>\<open>generate_graph\<close> releases the drawing surface), at
  an entry of unsupported kind with a figure size. The \<^verbatim>\<open>return\<close> of line 66 leaves
  before the \<^verbatim>\<open>try ... finally\<close> of lines 80-85: the invocation calls
  \<^verbatim>\<open>plt.clf()\<close> and \<^verbatim>\<open>plt.figure(...)\<close> and never \<^verbatim>\<open>plt.close()\<close>, and two such
  entries in a row open two figures and close none. The same entry with a supported kind
  ends with \<^verbatim>\<open>plt.close()\<close>.
\<close>

theorem unsupported_kind_leaves_figure_open:
  "fst (render_all env_ok table_abc [spec_pie, spec_pie] world0) = Return () \<and>
   plt (snd (render_all env_ok table_abc [spec_pie, spec_pie] world0)) =
     [Clf, Figure [10, 6], Clf, Figure [10, 6]] \<and>
   plt (snd (generate_graph env_ok table_abc spec_pie world0)) = [Clf, Figure [10, 6]] \<and>
   plt (snd (generate_graph env_ok table_abc (spec_pie\<lparr>kind := Some ''bar''\<rparr>) world0)) =
     [Clf, Figure [10, 6], Bar [Num 1] [Num 2] ''b'', Bar [Num 1] [Num 3] ''c'', Title ''T'',
      XLabel ''a'', YLabel ''b, c'', Legend, Grid True, TightLayout, Savefig ''out/x.png'', Close]"
  by (simp add: run_defs example_defs)

text \<open>
  Claim C4, as amended. For an entry with a kind other than line, plot, scatter and bar,
  whose \<^verbatim>\<open>y_columns\<close> is not empty, whose \<^verbatim>\<open>x_column\<close> and first y column are columns
  of the table, and for which \<^verbatim>\<open>plt.clf()\<close> and, when it has a figure size,
  \<^verbatim>\<open>plt.figure(figsize=...)\<close> raise nothing, \<^verbatim>\<open>generate_graph\<close> returns (it neither
  raises nor exits), prints the one warning naming the kind, saves no image, makes no
  directory, and calls pyplot only to clear the figure and set its size: no series is
  drawn.
\<close>

theorem unsupported_kind_aborts:
  assumes "kind g = Some k" and "k \<noteq> ''line''" and "k \<noteq> ''plot''" and "k \<noteq> ''scatter''"
    and "k \<noteq> ''bar''" and "y_columns g = Some (y # ys)" and "x_column g = Some xc"
    and "xc \<in> set (columns df)" and "y \<in> set (columns df)"
    and "plt_ok E (plt w) (setup_calls g)"
  shows "\<exists>w'. generate_graph E df g w = (Return (), w') \<and>
     stdout w' = stdout w @ [''[WARNING] Unsupported graph type: '' @ k] \<and>
     saved w' = saved w \<and> made_dirs w' = made_dirs w \<and>
     plt w' = plt w @ Clf # (case figure_size g of Some fs \<Rightarrow> [Figure fs] | None \<Rightarrow> [])"
proof -
  let ?cs = "setup_calls g"
  let ?w0 = "w\<lparr>invoked := invoked w @ [(df, g)]\<rparr>"
  obtain x where x: "getitem df xc = Inr x" using getitem_present[OF assms(8)] by blast
  have ns: "\<not> supported k" using assms(2-5) by (simp add: supported_def)
  have "plt_ok E (plt ?w0) ?cs" using assms(10) by simp
  from pyplot_all_ok[OF this] have p: "pyplot_all E ?cs ?w0 = Inr (?w0\<lparr>plt := plt ?w0 @ ?cs\<rparr>)" .
  show ?thesis
    unfolding generate_graph_def Let_def p
    using x assms(1,6,7) draw_series_unsupported[OF assms(1) ns assms(9)]
    by (simp add: subscript_def print_def setup_calls_def)
qed

text \<open>The theorem at the kind \<^verbatim>\<open>pie\<close>.\<close>

theorem unsupported_kind_aborts_witness:
  "kind spec_pie = Some ''pie'' \<and> y_columns spec_pie = Some [''b'', ''c''] \<and>
   x_column spec_pie = Some ''a'' \<and> ''a'' \<in> set (columns table_abc) \<and>
   ''b'' \<in> set (columns table_abc) \<and>
   plt_ok env_ok (plt world0) (setup_calls spec_pie) \<and>
   (\<exists>w'. generate_graph env_ok table_abc spec_pie world0 = (Return (), w') \<and>
      stdout w' = [''[WARNING] Unsupported graph type: pie''] \<and> saved w' = [] \<and>
      made_dirs w' = [] \<and> plt w' = [Clf, Figure [10, 6]])"
  using unsupported_kind_aborts[of spec_pie "''pie''" "''b''" "[''c'']" "''a''" table_abc env_ok world0]
  by (simp add: spec_pie_def spec_line_def table_abc_def columns_def world0_def env_ok_def
      setup_calls_def)

text \<open>The claim as stated fails at entries of unsupported kind with y columns: when
  \<^verbatim>\<open>plt.figure\<close> rejects the figure size, when the first y column is not in the table,
  and when the x column is not in the table, the call raises before the kind is looked
  at and prints no warning.\<close>

theorem unsupported_kind_may_raise:
  "kind spec_pie_negative = Some ''pie'' \<and> y_columns spec_pie_negative = Some [''b'', ''c''] \<and>
   generate_graph env_figsize table_abc spec_pie_negative world0 =
     (Raise (ValueError ''figure size must be positive finite not (-1, 2)''),
      world0\<lparr>plt := [Clf], invoked := [(table_abc, spec_pie_negative)]\<rparr>) \<and>
   kind spec_pie_missing_y = Some ''pie'' \<and> y_columns spec_pie_missing_y = Some [''zz'', ''b''] \<and>
   fst (generate_graph env_ok table_abc spec_pie_missing_y world0) = Raise (KeyError ''zz'') \<and>
   stdout (snd (generate_graph env_ok table_abc spec_pie_missing_y world0)) = [] \<and>
   kind spec_pie_missing_x = Some ''pie'' \<and> y_columns spec_pie_missing_x = Some [''b'', ''c''] \<and>
   fst (generate_graph env_ok table_abc spec_pie_missing_x world0) = Raise (KeyError ''zz'') \<and>
   stdout (snd (generate_graph env_ok table_abc spec_pie_missing_x world0)) = []"
  by (simp add: run_defs example_defs env_figsize_def spec_pie_negative_def
      spec_pie_missing_y_def spec_pie_missing_x_def)




text \<open>
  Claim C6, as amended. \<^verbatim>\<open>load_dataframe\<close> fails in three ways, each printing its own
  message (the three differ from one another) and exiting with status 1: a path that
  does not exist (FileNotFoundError) gives the message that the file is not found, an
  empty file (EmptyDataError) the message that it is empty, and any other exception of
  \<^verbatim>\<open>pd.read_csv\<close>, which includes a path that exists but cannot be read, the generic
  message with the text of the exception. It returns a table exactly when
  \<^verbatim>\<open>pd.read_csv\<close> returned that table.
\<close>

theorem load_dataframe_failure_modes:
  "(read_csv E p = CsvFileNotFound \<longrightarrow>
      load_dataframe E p w =
        (Exit 1, w\<lparr>stdout := stdout w @ [''Error: Data file '' @ quoted p @ '' not found!'']\<rparr>)) \<and>
   (read_csv E p = CsvEmptyData \<longrightarrow>
      load_dataframe E p w =
        (Exit 1, w\<lparr>stdout := stdout w @ [''Error: Data file '' @ quoted p @ '' is empty!'']\<rparr>)) \<and>
   (read_csv E p = CsvUnreadable e \<or> read_csv E p = CsvException e \<longrightarrow>
      load_dataframe E p w =
        (Exit 1, w\<lparr>stdout := stdout w @ [''Error reading data file '' @ quoted p @ '': '' @ e]\<rparr>)) \<and>
   (csv_fails E p \<longrightarrow> fst (load_dataframe E p w) = Exit 1) \<and>
   (fst (load_dataframe E p w) = Return df) = (read_csv E p = CsvLoaded df) \<and>
   ''Error: Data file '' @ quoted p @ '' not found!'' \<noteq> ''Error: Data file '' @ quoted p @ '' is empty!'' \<and>
   ''Error: Data file '' @ quoted p @ '' not found!'' \<noteq> ''Error reading data file '' @ quoted p @ '': '' @ e' \<and>
   ''Error: Data file '' @ quoted p @ '' is empty!'' \<noteq> ''Error reading data file '' @ quoted p @ '': '' @ e'"
  by (auto simp: load_dataframe_def print_def csv_fails_def split: csv_read.splits)

text \<open>The theorem at each of the failures.\<close>

theorem load_dataframe_failure_modes_witness:
  "load_dataframe (env_csv CsvFileNotFound) ''d.csv'' world0 =
     (Exit 1, world0\<lparr>stdout := [''Error: Data file 'd.csv' not found!'']\<rparr>) \<and>
   load_dataframe (env_csv CsvEmptyData) ''d.csv'' world0 =
     (Exit 1, world0\<lparr>stdout := [''Error: Data file 'd.csv' is empty!'']\<rparr>) \<and>
   load_dataframe (env_csv (CsvException ''bad row'')) ''d.csv'' world0 =
     (Exit 1, world0\<lparr>stdout := [''Error reading data file 'd.csv': bad row'']\<rparr>) \<and>
   load_dataframe (env_csv (CsvUnreadable ''[Errno 21] Is a directory'')) ''d.csv'' world0 =
     (Exit 1, world0\<lparr>stdout := [''Error reading data file 'd.csv': [Errno 21] Is a directory'']\<rparr>) \<and>
   csv_fails (env_csv CsvEmptyData) ''d.csv'' \<and>
   fst (load_dataframe (env_csv CsvEmptyData) ''d.csv'' world0) = Exit 1"
  using load_dataframe_failure_modes[of "env_csv CsvFileNotFound" "''d.csv''" world0 "''bad row''" table_abc "''bad row''"]
    load_dataframe_failure_modes[of "env_csv CsvEmptyData" "''d.csv''" world0 "''bad row''" table_abc "''bad row''"]
    load_dataframe_failure_modes[of "env_csv (CsvException ''bad row'')" "''d.csv''" world0 "''bad row''" table_abc "''bad row''"]
    load_dataframe_failure_modes[of "env_csv (CsvUnreadable ''[Errno 21] Is a directory'')" "''d.csv''" world0 "''[Errno 21] Is a directory''" table_abc "''bad row''"]
  by (simp add: env_csv_def env_ok_def world0_def quoted_def csv_fails_def)

text \<open>The claim as stated fails at a path that exists but cannot be read: the message is
  the generic one, not the message that the file is not found.\<close>

theorem unreadable_data_file_not_reported_missing:
  "load_dataframe (env_csv (CsvUnreadable ''[Errno 13] Permission denied'')) ''d.csv'' world0 =
     (Exit 1, world0\<lparr>stdout := [''Error reading data file 'd.csv': [Errno 13] Permission denied'']\<rparr>) \<and>
   ''Error reading data file 'd.csv': [Errno 13] Permission denied'' \<noteq>
     ''Error: Data file 'd.csv' not found!''"
  by (simp add: load_dataframe_def print_def env_csv_def env_ok_def world0_def quoted_def)

text \<open>
  Claim C7, as amended. When the configuration file does not exist, \<^verbatim>\<open>load_config\<close>
  prints a message with the path and exits with status 1; when the document is
  malformed, it prints the parser's text and exits with status 1; when the path exists
  but cannot be read (a directory, no permission), it prints nothing and does not exit:
  the exception escapes to the caller. It returns a document exactly when the parser
  returned that document.
\<close>

theorem load_config_failure:
  "(open_yaml E p = ConfigFileNotFound \<longrightarrow>
      load_config E p w =
        (Exit 1, w\<lparr>stdout := stdout w @ [''Error: Config file '' @ quoted p @ '' not found!'']\<rparr>)) \<and>
   (open_yaml E p = ConfigYAMLError e \<longrightarrow>
      load_config E p w =
        (Exit 1, w\<lparr>stdout := stdout w @ [''Error parsing config file: '' @ e]\<rparr>)) \<and>
   (open_yaml E p = ConfigUnreadable m \<longrightarrow> load_config E p w = (Raise (OSError m), w)) \<and>
   (config_fails E p \<longrightarrow> fst (load_config E p w) = Exit 1) \<and>
   (fst (load_config E p w) = Return doc) = (open_yaml E p = ConfigLoaded doc)"
  by (auto simp: load_config_def print_def config_fails_def split: config_read.splits)

text \<open>The theorem at a missing file, at a malformed document and at a directory.\<close>

theorem load_config_failure_witness:
  "load_config (env_config ConfigFileNotFound) ''missing.yaml'' world0 =
     (Exit 1, world0\<lparr>stdout := [''Error: Config file 'missing.yaml' not found!'']\<rparr>) \<and>
   load_config (env_config (ConfigYAMLError ''mapping values are not allowed here'')) ''c.yaml'' world0 =
     (Exit 1, world0\<lparr>stdout := [''Error parsing config file: mapping values are not allowed here'']\<rparr>) \<and>
   load_config (env_config (ConfigUnreadable ''[Errno 21] Is a directory'')) ''c.yaml'' world0 =
     (Raise (OSError ''[Errno 21] Is a directory''), world0) \<and>
   config_fails (env_config ConfigFileNotFound) ''missing.yaml'' \<and>
   fst (load_config (env_config ConfigFileNotFound) ''missing.yaml'' world0) = Exit 1"
  using load_config_failure[of "env_config ConfigFileNotFound" "''missing.yaml''" world0 "''x''" "''x''" YamlNone]
    load_config_failure[of "env_config (ConfigYAMLError ''mapping values are not allowed here'')" "''c.yaml''" world0 "''mapping values are not allowed here''" "''x''" YamlNone]
    load_config_failure[of "env_config (ConfigUnreadable ''[Errno 21] Is a directory'')" "''c.yaml''" world0 "''x''" "''[Errno 21] Is a directory''" YamlNone]
  by (simp add: env_config_def env_ok_def world0_def quoted_def config_fails_def)

text \<open>The claim as stated fails at a path that cannot be read: \<^verbatim>\<open>load_config\<close>
  prints no error and calls no \<^verbatim>\<open>sys.exit\<close>; the exception escapes from it and from
  main.\<close>

theorem unreadable_config_not_reported:
  "load_config (env_config (ConfigUnreadable ''[Errno 13] Permission denied'')) ''config.yaml'' world0 =
     (Raise (OSError ''[Errno 13] Permission denied''), world0) \<and>
   stdout world0 = [] \<and>
   fst (load_config (env_config (ConfigUnreadable ''[Errno 13] Permission denied'')) ''config.yaml'' world0)
     \<noteq> Exit 1 \<and>
   main (env_config (ConfigUnreadable ''[Errno 13] Permission denied'')) args_default world0 =
     (Raise (OSError ''[Errno 13] Permission denied''), world0)"
  by (simp add: main_def load_config_def env_config_def env_ok_def world0_def args_default_def)



text \<open>
  Claim C9, as amended. For an entry whose \<^verbatim>\<open>y_columns\<close> is empty, whatever its kind
  (the key may even be absent), \<^verbatim>\<open>generate_graph\<close> prints no warning: it prints
  nothing, or the one line of a failed save. If moreover its \<^verbatim>\<open>x_column\<close> is a column
  of the table, it has a title and an output file, the output directory can be made and
  none of its pyplot calls outside the \<^verbatim>\<open>try\<close> raises, then it returns after it set
  the title and the labels (the y label is the empty join) and called \<^verbatim>\<open>plt.savefig\<close>
  on the output file, and the image is saved when the save succeeds.
\<close>

theorem empty_y_columns_still_saves:
  assumes "y_columns g = Some []"
  shows "(stdout (snd (generate_graph E df g w)) = stdout w \<or>
      (\<exists>out e. stdout (snd (generate_graph E df g w)) =
         stdout w @ [''Error saving graph to '' @ out @ '': '' @ e])) \<and>
     (x_column g = Some xc \<and> xc \<in> set (columns df) \<and> title g = Some t \<and>
      output_file g = Some out \<and>
      (dirname out = [] \<or> makedirs_error E (dirname out) = None) \<and>
      plt_ok E (plt w) (setup_calls g @ label_calls g xc [] t) \<and>
      plt_error E (plt w @ setup_calls g @ label_calls g xc [] t @ [Savefig out]) Close = None
      \<longrightarrow>
      (\<exists>w'. generate_graph E df g w = (Return (), w') \<and>
         plt w' = plt w @ setup_calls g @ label_calls g xc [] t @ [Savefig out, Close] \<and>
         (case savefig_error E (plt w @ setup_calls g @ label_calls g xc [] t) out of
            None \<Rightarrow> saved w' = saved w @ [out] \<and> stdout w' = stdout w
          | Some e \<Rightarrow> saved w' = saved w \<and>
              stdout w' = stdout w @ [''Error saving graph to '' @ out @ '': '' @ e])))"
proof (intro conjI impI)
  let ?w0 = "w\<lparr>invoked := invoked w @ [(df, g)]\<rparr>"
  show "stdout (snd (generate_graph E df g w)) = stdout w \<or>
      (\<exists>out e. stdout (snd (generate_graph E df g w)) =
         stdout w @ [''Error saving graph to '' @ out @ '': '' @ e])"
  proof (cases "pyplot_all E (setup_calls g) ?w0")
    case (Inl ew)
    obtain e w1 where ew: "ew = (e, w1)" by (cases ew)
    from Inl ew have "pyplot_all E (setup_calls g) ?w0 = Inl (e, w1)" by simp
    from pyplot_all_Inl[OF this] have "stdout w1 = stdout w" by auto
    with Inl ew show ?thesis by (simp add: generate_graph_def Let_def)
  next
    case (Inr w1)
    from pyplot_all_Inr[OF Inr] have s1: "stdout w1 = stdout w" by simp
    show ?thesis
    proof (cases "x_column g")
      case None
      with Inr s1 show ?thesis by (simp add: generate_graph_def Let_def subscript_def)
    next
      case (Some xc')
      show ?thesis
      proof (cases "getitem df xc'")
        case (Inl e)
        with Inr s1 Some show ?thesis by (simp add: generate_graph_def Let_def subscript_def)
      next
        case x: (Inr x)
        from Inr Some x assms
        have "generate_graph E df g w = label_and_save E g xc' [] w1"
          by (simp add: generate_graph_def Let_def subscript_def)
        with label_and_save_world[of E g xc' "[]" w1 "fst (label_and_save E g xc' [] w1)"
            "snd (label_and_save E g xc' [] w1)"] s1
        show ?thesis by simp
      qed
    qed
  qed
next
  assume h: "x_column g = Some xc \<and> xc \<in> set (columns df) \<and> title g = Some t \<and>
      output_file g = Some out \<and>
      (dirname out = [] \<or> makedirs_error E (dirname out) = None) \<and>
      plt_ok E (plt w) (setup_calls g @ label_calls g xc [] t) \<and>
      plt_error E (plt w @ setup_calls g @ label_calls g xc [] t @ [Savefig out]) Close = None"
  let ?w0 = "w\<lparr>invoked := invoked w @ [(df, g)]\<rparr>"
  let ?cs = "setup_calls g @ label_calls g xc [] t"
  from h obtain x where x: "getitem df xc = Inr x" using getitem_present by blast
  from h have "plt_ok E (plt ?w0) ?cs" by simp
  from pyplot_all_ok[OF this] have p: "pyplot_all E ?cs ?w0 = Inr (?w0\<lparr>plt := plt w @ ?cs\<rparr>)"
    by simp
  have app: "\<And>cs ds w0 w2. pyplot_all E (cs @ ds) w0 = Inr w2 \<Longrightarrow>
      \<exists>w1. pyplot_all E cs w0 = Inr w1 \<and> pyplot_all E ds w1 = Inr w2"
  proof -
    fix cs ds w0 w2
    show "pyplot_all E (cs @ ds) w0 = Inr w2 \<Longrightarrow>
      \<exists>w1. pyplot_all E cs w0 = Inr w1 \<and> pyplot_all E ds w1 = Inr w2"
      by (induction cs arbitrary: w0) (auto split: sum.splits)
  qed
  from app[OF p] obtain w1 where p1: "pyplot_all E (setup_calls g) ?w0 = Inr w1"
    and p2: "pyplot_all E (label_calls g xc [] t) w1 = Inr (?w0\<lparr>plt := plt w @ ?cs\<rparr>)"
    by blast
  let ?w4 = "?w0\<lparr>plt := plt w @ ?cs\<rparr>"
  have g: "generate_graph E df g w = save_chart E g ?w4"
    using h x assms p1 p2
    by (simp add: generate_graph_def Let_def subscript_def label_and_save_def)
  show "\<exists>w'. generate_graph E df g w = (Return (), w') \<and>
         plt w' = plt w @ setup_calls g @ label_calls g xc [] t @ [Savefig out, Close] \<and>
         (case savefig_error E (plt w @ setup_calls g @ label_calls g xc [] t) out of
            None \<Rightarrow> saved w' = saved w @ [out] \<and> stdout w' = stdout w
          | Some e \<Rightarrow> saved w' = saved w \<and>
              stdout w' = stdout w @ [''Error saving graph to '' @ out @ '': '' @ e])"
    unfolding g using h
    by (auto simp: save_chart_def save_and_close_def makedirs_def subscript_def pyplot_def
        print_def Let_def split: option.splits)
qed

text \<open>The theorem at an entry of kind \<^verbatim>\<open>pie\<close> with no y columns.\<close>

theorem empty_y_columns_still_saves_witness:
  "kind spec_no_series = Some ''pie'' \<and> y_columns spec_no_series = Some [] \<and>
   stdout (snd (generate_graph env_ok table_abc spec_no_series world0)) = [] \<and>
   (\<exists>w'. generate_graph env_ok table_abc spec_no_series world0 = (Return (), w') \<and>
      plt w' = [Clf, Title ''T'', XLabel ''a'', YLabel [], Legend, Grid True, TightLayout,
                Savefig ''out/x.png'', Close] \<and>
      saved w' = [''out/x.png''] \<and> stdout w' = [])"
proof -
  have y: "y_columns spec_no_series = Some []" by (simp add: spec_no_series_def)
  have h: "x_column spec_no_series = Some ''a'' \<and> ''a'' \<in> set (columns table_abc) \<and>
      title spec_no_series = Some ''T'' \<and> output_file spec_no_series = Some ''out/x.png'' \<and>
      (dirname ''out/x.png'' = [] \<or> makedirs_error env_ok (dirname ''out/x.png'') = None) \<and>
      plt_ok env_ok (plt world0) (setup_calls spec_no_series @ label_calls spec_no_series ''a'' [] ''T'') \<and>
      plt_error env_ok (plt world0 @ setup_calls spec_no_series @
         label_calls spec_no_series ''a'' [] ''T'' @ [Savefig ''out/x.png'']) Close = None"
    by (simp add: spec_no_series_def spec_line_def table_abc_def columns_def env_ok_def
        setup_calls_def label_calls_def)
  from empty_y_columns_still_saves[OF y, of env_ok table_abc world0 "''a''" "''T''" "''out/x.png''"] h
  have "\<exists>w'. generate_graph env_ok table_abc spec_no_series world0 = (Return (), w') \<and>
         plt w' = plt world0 @ setup_calls spec_no_series @
            label_calls spec_no_series ''a'' [] ''T'' @ [Savefig ''out/x.png'', Close] \<and>
         (case savefig_error env_ok (plt world0 @ setup_calls spec_no_series @
                  label_calls spec_no_series ''a'' [] ''T'') ''out/x.png'' of
            None \<Rightarrow> saved w' = saved world0 @ [''out/x.png''] \<and> stdout w' = stdout world0
          | Some e \<Rightarrow> saved w' = saved world0 \<and>
              stdout w' = stdout world0 @ [''Error saving graph to '' @ ''out/x.png'' @ '': '' @ e])"
    by blast
  then show ?thesis
    by (auto simp: spec_no_series_def spec_line_def world0_def env_ok_def setup_calls_def
        label_calls_def)
qed

text \<open>The claim as stated fails at an entry with no y columns and an empty figure, where
  \<^verbatim>\<open>plt.tight_layout()\<close> raises: the labels are set, but \<^verbatim>\<open>plt.savefig\<close> is never
  called and no image is saved.\<close>

theorem empty_y_columns_may_not_reach_save:
  "y_columns spec_no_series_empty = Some [] \<and>
   generate_graph env_layout table_abc spec_no_series_empty world0 =
     (Raise (OtherError ''tight_layout cannot lay out an empty figure''),
      world0\<lparr>plt := [Clf, Figure [0, 0], Title ''T'', XLabel ''a'', YLabel [], Legend, Grid True],
             invoked := [(table_abc, spec_no_series_empty)]\<rparr>) \<and>
   Savefig ''out/x.png'' \<notin> set (plt (snd (generate_graph env_layout table_abc spec_no_series_empty world0))) \<and>
   saved (snd (generate_graph env_layout table_abc spec_no_series_empty world0)) = []"
  by (simp add: run_defs example_defs env_layout_def spec_no_series_empty_def spec_no_series_def)



end
